theory Spec2Isabelle
  imports Complex_Main
begin

section \<open>Shared primitives\<close>

text \<open>
  A UUID is kept in its canonical string form, the form every repository stores
  (\<^verbatim>\<open>str(entity.id)\<close>). \<^verbatim>\<open>Decimal\<close> values are rationals: sums, differences,
  products and the division by 100 are exact in \<^verbatim>\<open>Decimal\<close> as long as the result fits
  the context precision of 28 significant digits, which is the range modelled here.
  A \<^verbatim>\<open>datetime\<close> is the calendar date with the time of day in microseconds;
  \<^verbatim>\<open>datetime.utcnow()\<close> is an argument \<open>now\<close> of every operation that reads the clock.
\<close>

type_synonym uuid = string

type_synonym decimal = rat

record datetime =
  year :: nat
  month :: nat
  day :: nat
  time_of_day :: nat

text \<open>
  Every failure the domain and the service raise themselves is a \<^verbatim>\<open>ValueError\<close>
  (pydantic's \<^verbatim>\<open>ValidationError\<close> is a subclass of it); the one failure that comes
  from the database is SQLAlchemy's \<^verbatim>\<open>IntegrityError\<close>. The constructors name the
  message of the \<^verbatim>\<open>raise\<close> statement:
  \<^item> \<open>InvalidQuantity\<close>: "Quantity must be positive";
  \<^item> \<open>InsufficientStock\<close>: "Insufficient stock. ..." and "Insufficient stock for ...";
  \<^item> \<open>NegativeStock\<close>: "Adjustment would result in negative stock: ...";
  \<^item> \<open>NotModifiable\<close>: "Cannot add items to ..." and "Cannot remove items from ...";
  \<^item> \<open>ItemNotFound\<close>: "Item ... not found in order";
  \<^item> \<open>InvalidTransition\<close>: "Cannot confirm/submit/cancel/ship/deliver order in ... status";
  \<^item> \<open>EmptyOrder\<close>: "Cannot confirm empty order" and "Cannot submit empty order";
  \<^item> \<open>OrderNotFound\<close>: "Order ... not found";
  \<^item> \<open>ProductNotFound\<close>: "Product ... not found";
  \<^item> \<open>ValidationError\<close>: a field constraint of a pydantic model is violated at
    construction;
  \<^item> \<open>IntegrityError\<close>: the flush of an INSERT violates the primary key or a unique
    column of the table.
\<close>

datatype error =
    InvalidQuantity
  | InsufficientStock
  | NegativeStock
  | NotModifiable
  | ItemNotFound
  | InvalidTransition
  | EmptyOrder
  | OrderNotFound
  | ProductNotFound
  | ValidationError
  | IntegrityError

section \<open>Inventory entity (src/domain/entities/inventory.py)\<close>

datatype StockMovementType =
  PURCHASE | SALE | ADJUSTMENT | TRANSFER | RETURN | DAMAGE | EXPIRED

text \<open>
  \<^verbatim>\<open>StockMovement\<close>: the fields filled by a default (\<^verbatim>\<open>id\<close>, \<^verbatim>\<open>notes\<close>,
  \<^verbatim>\<open>created_by\<close>, \<^verbatim>\<open>created_at\<close>) are left out; the field \<^verbatim>\<open>quantity\<close> is
  \<open>mv_quantity\<close>.
\<close>

record StockMovement =
  inventory_item_id :: uuid
  movement_type :: StockMovementType
  mv_quantity :: int
  quantity_after :: int
  reference :: "string option"

text \<open>
  \<^verbatim>\<open>InventoryItem\<close> with the fields the stock operations and the order service read or
  write (descriptive fields such as \<^verbatim>\<open>description\<close>, \<^verbatim>\<open>barcode\<close>, \<^verbatim>\<open>tags\<close>,
  \<^verbatim>\<open>weight\<close> are left out). The fields \<^verbatim>\<open>id\<close>, \<^verbatim>\<open>organization_id\<close>, \<^verbatim>\<open>sku\<close>,
  \<^verbatim>\<open>name\<close>, \<^verbatim>\<open>updated_at\<close> carry the prefix \<open>inv_\<close>.
\<close>

record InventoryItem =
  inv_id :: uuid
  inv_organization_id :: uuid
  inv_sku :: string
  inv_name :: string
  cost_price :: decimal
  selling_price :: decimal
  quantity_on_hand :: int
  quantity_reserved :: int
  quantity_on_order :: int
  reorder_point :: int
  is_active :: bool
  is_trackable :: bool
  inv_updated_at :: datetime

text \<open>
  The constructor of \<^verbatim>\<open>StockMovement\<close>: pydantic checks \<^verbatim>\<open>quantity_after >= 0\<close>
  (\<^verbatim>\<open>Field(..., ge=0)\<close>) and raises otherwise.
\<close>

definition new_StockMovement ::
  "uuid \<Rightarrow> StockMovementType \<Rightarrow> int \<Rightarrow> string option \<Rightarrow> int \<Rightarrow> error + StockMovement" where
  "new_StockMovement item_id mtype qty ref qafter =
     (if qafter < 0 then Inl ValidationError
      else Inr \<lparr>inventory_item_id = item_id, movement_type = mtype, mv_quantity = qty,
                quantity_after = qafter, reference = ref\<rparr>)"

definition quantity_available :: "InventoryItem \<Rightarrow> int" where
  "quantity_available self = max 0 (quantity_on_hand self - quantity_reserved self)"

definition needs_reorder :: "InventoryItem \<Rightarrow> bool" where
  "needs_reorder self \<longleftrightarrow> quantity_available self \<le> reorder_point self"

text \<open>
  A method mutates \<^verbatim>\<open>self\<close> in place and returns or raises. The model returns the
  outcome together with the item as the call leaves it, so that what a failing call has
  already written stays visible.
\<close>

definition receive_stock ::
  "datetime \<Rightarrow> int \<Rightarrow> string option \<Rightarrow> InventoryItem \<Rightarrow> (error + StockMovement) \<times> InventoryItem" where
  "receive_stock now qty ref self =
     (if qty \<le> 0 then (Inl InvalidQuantity, self)
      else
        let self' = self\<lparr>quantity_on_hand := quantity_on_hand self + qty,
                         inv_updated_at := now\<rparr>
        in (new_StockMovement (inv_id self') PURCHASE qty ref (quantity_on_hand self'), self'))"

definition reserve_stock ::
  "datetime \<Rightarrow> int \<Rightarrow> InventoryItem \<Rightarrow> (error + unit) \<times> InventoryItem" where
  "reserve_stock now qty self =
     (if qty \<le> 0 then (Inl InvalidQuantity, self)
      else if qty > quantity_available self then (Inl InsufficientStock, self)
      else (Inr (), self\<lparr>quantity_reserved := quantity_reserved self + qty,
                           inv_updated_at := now\<rparr>))"

definition release_reservation ::
  "datetime \<Rightarrow> int \<Rightarrow> InventoryItem \<Rightarrow> (error + unit) \<times> InventoryItem" where
  "release_reservation now qty self =
     (if qty \<le> 0 then (Inl InvalidQuantity, self)
      else (Inr (), self\<lparr>quantity_reserved := max 0 (quantity_reserved self - qty),
                           inv_updated_at := now\<rparr>))"

text \<open>
  \<^verbatim>\<open>str(order_id) if order_id else None\<close>: a \<^verbatim>\<open>UUID\<close> object is always true, so the
  reference is absent exactly when no order id is passed.
\<close>

definition sell_stock ::
  "datetime \<Rightarrow> int \<Rightarrow> uuid option \<Rightarrow> InventoryItem \<Rightarrow> (error + StockMovement) \<times> InventoryItem" where
  "sell_stock now qty order_ref self =
     (if qty \<le> 0 then (Inl InvalidQuantity, self)
      else if qty > quantity_on_hand self then (Inl InsufficientStock, self)
      else
        let s1 = self\<lparr>quantity_on_hand := quantity_on_hand self - qty\<rparr>;
            s2 = (if quantity_reserved s1 > 0
                  then s1\<lparr>quantity_reserved := max 0 (quantity_reserved s1 - qty)\<rparr>
                  else s1);
            s3 = s2\<lparr>inv_updated_at := now\<rparr>
        in (new_StockMovement (inv_id s3) SALE (- qty) order_ref (quantity_on_hand s3), s3))"

definition adjust_stock ::
  "datetime \<Rightarrow> int \<Rightarrow> string \<Rightarrow> StockMovementType \<Rightarrow> InventoryItem
     \<Rightarrow> (error + StockMovement) \<times> InventoryItem" where
  "adjust_stock now qty reason mtype self =
     (let new_quantity = quantity_on_hand self + qty
      in if new_quantity < 0 then (Inl NegativeStock, self)
         else
           let self' = self\<lparr>quantity_on_hand := new_quantity, inv_updated_at := now\<rparr>
           in (new_StockMovement (inv_id self') mtype qty (Some reason) (quantity_on_hand self'),
               self'))"

text \<open>
  The field constraints of \<^verbatim>\<open>InventoryItem\<close> on the two stock counters
  (\<^verbatim>\<open>Field(default=0, ge=0)\<close>), which pydantic checks when an item is constructed.
\<close>

definition stock_counters_ok :: "InventoryItem \<Rightarrow> bool" where
  "stock_counters_ok self \<longleftrightarrow> 0 \<le> quantity_on_hand self \<and> 0 \<le> quantity_reserved self"

text \<open>
  A call of one of the five stock operations, with the clock value it reads. A caller that
  goes on after a failed call keeps the item as the call left it.
\<close>

datatype stock_call =
    Reserve int
  | Release int
  | Sell int "uuid option"
  | Receive int "string option"
  | Adjust int string StockMovementType

fun stock_step :: "InventoryItem \<Rightarrow> datetime \<times> stock_call \<Rightarrow> InventoryItem" where
  "stock_step self (now, Reserve qty) = snd (reserve_stock now qty self)"
| "stock_step self (now, Release qty) = snd (release_reservation now qty self)"
| "stock_step self (now, Sell qty order_ref) = snd (sell_stock now qty order_ref self)"
| "stock_step self (now, Receive qty ref) = snd (receive_stock now qty ref self)"
| "stock_step self (now, Adjust qty reason mtype) = snd (adjust_stock now qty reason mtype self)"

definition stock_run :: "(datetime \<times> stock_call) list \<Rightarrow> InventoryItem \<Rightarrow> InventoryItem" where
  "stock_run calls self = foldl stock_step self calls"

section \<open>Order entity (src/domain/entities/order.py)\<close>

datatype OrderStatus =
  DRAFT | PENDING | CONFIRMED | PROCESSING | SHIPPED | DELIVERED | CANCELLED | REFUNDED

definition can_modify :: "OrderStatus \<Rightarrow> bool" where
  "can_modify s \<longleftrightarrow> s \<in> {DRAFT, PENDING}"

definition can_cancel :: "OrderStatus \<Rightarrow> bool" where
  "can_cancel s \<longleftrightarrow> s \<in> {DRAFT, PENDING, CONFIRMED, PROCESSING}"

text \<open>
  \<^verbatim>\<open>OrderItem\<close>: the fields \<^verbatim>\<open>id\<close> and \<^verbatim>\<open>sku\<close> are \<open>oi_id\<close> and \<open>oi_sku\<close>;
  \<^verbatim>\<open>notes\<close> is left out.
\<close>

record OrderItem =
  oi_id :: uuid
  product_id :: uuid
  product_name :: string
  oi_sku :: string
  quantity :: int
  unit_price :: decimal
  discount_percent :: decimal
  tax_percent :: decimal

text \<open>
  The constructor of \<^verbatim>\<open>OrderItem\<close> with the field constraints pydantic checks:
  \<^verbatim>\<open>quantity: ge=1\<close>, \<^verbatim>\<open>unit_price: ge=0\<close>, \<^verbatim>\<open>discount_percent: ge=0, le=100\<close>,
  \<^verbatim>\<open>tax_percent: ge=0\<close>. The id comes from \<^verbatim>\<open>uuid4()\<close> and is an argument.
\<close>

definition new_OrderItem ::
  "uuid \<Rightarrow> uuid \<Rightarrow> string \<Rightarrow> string \<Rightarrow> int \<Rightarrow> decimal \<Rightarrow> decimal \<Rightarrow> decimal
     \<Rightarrow> error + OrderItem" where
  "new_OrderItem new_id pid pname psku qty price discount tax =
     (if qty \<ge> 1 \<and> price \<ge> 0 \<and> discount \<ge> 0 \<and> discount \<le> 100 \<and> tax \<ge> 0
      then Inr \<lparr>oi_id = new_id, product_id = pid, product_name = pname, oi_sku = psku,
                quantity = qty, unit_price = price, discount_percent = discount,
                tax_percent = tax\<rparr>
      else Inl ValidationError)"

text \<open>The computed fields of a line (\<^verbatim>\<open>OrderItem.subtotal\<close> is \<open>item_subtotal\<close>,
  \<^verbatim>\<open>OrderItem.total\<close> is \<open>item_total\<close>).\<close>

definition item_subtotal :: "OrderItem \<Rightarrow> decimal" where
  "item_subtotal self = unit_price self * of_int (quantity self)"

definition discount_amount :: "OrderItem \<Rightarrow> decimal" where
  "discount_amount self = item_subtotal self * (discount_percent self / 100)"

definition taxable_amount :: "OrderItem \<Rightarrow> decimal" where
  "taxable_amount self = item_subtotal self - discount_amount self"

definition tax_amount :: "OrderItem \<Rightarrow> decimal" where
  "tax_amount self = taxable_amount self * (tax_percent self / 100)"

definition item_total :: "OrderItem \<Rightarrow> decimal" where
  "item_total self = taxable_amount self + tax_amount self"

text \<open>
  \<^verbatim>\<open>Order\<close>: \<^verbatim>\<open>id\<close> is \<open>order_id\<close>; the customer reference, the addresses, the currency
  and the customer notes are left out (no modelled operation reads or writes them).
\<close>

record Order =
  order_id :: uuid
  order_number :: string
  organization_id :: uuid
  customer_name :: string
  customer_email :: "string option"
  items :: "OrderItem list"
  status :: OrderStatus
  shipping_cost :: decimal
  handling_fee :: decimal
  internal_notes :: "string option"
  created_by :: "uuid option"
  created_at :: datetime
  updated_at :: datetime
  confirmed_at :: "datetime option"
  shipped_at :: "datetime option"
  delivered_at :: "datetime option"

text \<open>Python's \<^verbatim>\<open>sum\<close> over a generator: it starts at 0 and adds from the left.\<close>

definition py_sum :: "'a::monoid_add list \<Rightarrow> 'a" where
  "py_sum xs = foldl (+) 0 xs"

definition subtotal :: "Order \<Rightarrow> decimal" where
  "subtotal self = py_sum (map item_subtotal (items self))"

definition total_discount :: "Order \<Rightarrow> decimal" where
  "total_discount self = py_sum (map discount_amount (items self))"

definition total_tax :: "Order \<Rightarrow> decimal" where
  "total_tax self = py_sum (map tax_amount (items self))"

definition grand_total :: "Order \<Rightarrow> decimal" where
  "grand_total self =
     (let items_total = py_sum (map item_total (items self))
      in items_total + shipping_cost self + handling_fee self)"

definition item_count :: "Order \<Rightarrow> int" where
  "item_count self = py_sum (map quantity (items self))"

definition add_item :: "datetime \<Rightarrow> OrderItem \<Rightarrow> Order \<Rightarrow> (error + unit) \<times> Order" where
  "add_item now item self =
     (if \<not> can_modify (status self) then (Inl NotModifiable, self)
      else (Inr (), self\<lparr>items := items self @ [item], updated_at := now\<rparr>))"

text \<open>
  \<^verbatim>\<open>remove_item\<close> assigns the filtered list before it compares the lengths; when it
  raises, the list it has assigned holds the same lines as before.
\<close>

definition remove_item :: "datetime \<Rightarrow> uuid \<Rightarrow> Order \<Rightarrow> (error + unit) \<times> Order" where
  "remove_item now item_id self =
     (if \<not> can_modify (status self) then (Inl NotModifiable, self)
      else
        let original_count = length (items self);
            self' = self\<lparr>items := filter (\<lambda>item. oi_id item \<noteq> item_id) (items self)\<rparr>
        in if length (items self') = original_count then (Inl ItemNotFound, self')
           else (Inr (), self'\<lparr>updated_at := now\<rparr>))"

definition confirm :: "datetime \<Rightarrow> Order \<Rightarrow> (error + unit) \<times> Order" where
  "confirm now self =
     (if status self \<noteq> PENDING then (Inl InvalidTransition, self)
      else if items self = [] then (Inl EmptyOrder, self)
      else (Inr (), self\<lparr>status := CONFIRMED, confirmed_at := Some now, updated_at := now\<rparr>))"

definition submit :: "datetime \<Rightarrow> Order \<Rightarrow> (error + unit) \<times> Order" where
  "submit now self =
     (if status self \<noteq> DRAFT then (Inl InvalidTransition, self)
      else if items self = [] then (Inl EmptyOrder, self)
      else (Inr (), self\<lparr>status := PENDING, updated_at := now\<rparr>))"

text \<open>
  \<^verbatim>\<open>str.strip()\<close> on ASCII text, and the note a cancellation or a shipment appends:
  \<^verbatim>\<open>f"{self.internal_notes or ''}\nCancelled: {reason}".strip()\<close>. An absent or empty
  reason (tracking number) appends nothing.
\<close>

definition is_space :: "char \<Rightarrow> bool" where
  "is_space c \<longleftrightarrow> c \<in> set [CHR '' '', CHR 0x09, CHR 0x0A, CHR 0x0B, CHR 0x0C, CHR 0x0D,
                             CHR 0x1C, CHR 0x1D, CHR 0x1E, CHR 0x1F]"

definition strip :: "string \<Rightarrow> string" where
  "strip s = rev (dropWhile is_space (rev (dropWhile is_space s)))"

definition append_note :: "string \<Rightarrow> string option \<Rightarrow> Order \<Rightarrow> Order" where
  "append_note label text_opt self =
     (case text_opt of
        None \<Rightarrow> self
      | Some txt \<Rightarrow>
          if txt = [] then self
          else self\<lparr>internal_notes :=
                 Some (strip ((case internal_notes self of None \<Rightarrow> [] | Some n \<Rightarrow> n)
                              @ [CHR 0x0A] @ label @ txt))\<rparr>)"

definition cancel :: "datetime \<Rightarrow> string option \<Rightarrow> Order \<Rightarrow> (error + unit) \<times> Order" where
  "cancel now reason self =
     (if \<not> can_cancel (status self) then (Inl InvalidTransition, self)
      else (Inr (), (append_note ''Cancelled: '' reason (self\<lparr>status := CANCELLED\<rparr>))
                      \<lparr>updated_at := now\<rparr>))"

definition ship :: "datetime \<Rightarrow> string option \<Rightarrow> Order \<Rightarrow> (error + unit) \<times> Order" where
  "ship now tracking_number self =
     (if status self \<notin> {CONFIRMED, PROCESSING} then (Inl InvalidTransition, self)
      else (Inr (), (append_note ''Tracking: '' tracking_number
                       (self\<lparr>status := SHIPPED, shipped_at := Some now\<rparr>))
                      \<lparr>updated_at := now\<rparr>))"

definition deliver :: "datetime \<Rightarrow> Order \<Rightarrow> (error + unit) \<times> Order" where
  "deliver now self =
     (if status self \<noteq> SHIPPED then (Inl InvalidTransition, self)
      else (Inr (), self\<lparr>status := DELIVERED, delivered_at := Some now, updated_at := now\<rparr>))"

text \<open>
  A call of one of the five lifecycle methods with the clock value it reads, and the log of
  a sequence of calls on one order: for each call its outcome and the status before and
  after it. A caller that goes on after a failed call keeps the order as the call left it.
\<close>

datatype order_call =
    Submit
  | Confirm
  | Ship "string option"
  | Deliver
  | Cancel "string option"

fun order_step :: "datetime \<Rightarrow> order_call \<Rightarrow> Order \<Rightarrow> (error + unit) \<times> Order" where
  "order_step now Submit self = submit now self"
| "order_step now Confirm self = confirm now self"
| "order_step now (Ship tracking_number) self = ship now tracking_number self"
| "order_step now Deliver self = deliver now self"
| "order_step now (Cancel reason) self = cancel now reason self"

fun order_log ::
  "Order \<Rightarrow> (datetime \<times> order_call) list
     \<Rightarrow> (order_call \<times> (error + unit) \<times> OrderStatus \<times> OrderStatus) list" where
  "order_log self [] = []"
| "order_log self ((now, c) # cs) =
     (c, fst (order_step now c self), status self, status (snd (order_step now c self)))
       # order_log (snd (order_step now c self)) cs"

text \<open>
  The lifecycle graph as the specification words it (section 4.2): the status a call leads
  to from a given status, \<open>None\<close> where the call is not permitted.
\<close>

fun lifecycle_target :: "order_call \<Rightarrow> OrderStatus \<Rightarrow> OrderStatus option" where
  "lifecycle_target Submit s = (if s = DRAFT then Some PENDING else None)"
| "lifecycle_target Confirm s = (if s = PENDING then Some CONFIRMED else None)"
| "lifecycle_target (Ship t) s =
     (if s = CONFIRMED \<or> s = PROCESSING then Some SHIPPED else None)"
| "lifecycle_target Deliver s = (if s = SHIPPED then Some DELIVERED else None)"
| "lifecycle_target (Cancel r) s =
     (if s = DRAFT \<or> s = PENDING \<or> s = CONFIRMED \<or> s = PROCESSING
      then Some CANCELLED else None)"

section \<open>Repositories (src/infrastructure/repositories)\<close>

text \<open>
  The database session behind both repositories is the state: one table per aggregate,
  a row per entity, in insertion order, and the append-only table of stock movements.
  Rows are the entities themselves (\<^verbatim>\<open>_to_model\<close> and \<^verbatim>\<open>_to_entity\<close> copy field by
  field). Of the constraints of the schema (src/infrastructure/database/models.py) the
  model enforces the two an INSERT into \<^verbatim>\<open>orders\<close> can violate: the primary key
  \<^verbatim>\<open>id\<close> and the column \<^verbatim>\<open>order_number\<close>, declared \<^verbatim>\<open>unique=True\<close>. An update
  through \<^verbatim>\<open>merge\<close> writes a row back under the key and the number it was read with.
  Foreign keys and the commit or rollback of the session, which belong to the caller of
  the service, are not part of the model.
\<close>

record db =
  orders :: "Order list"
  inventory :: "InventoryItem list"
  movements :: "StockMovement list"

text \<open>\<^verbatim>\<open>session.merge\<close>: the row with the entity's key is replaced, a new key is inserted.\<close>

fun merge_row :: "('a \<Rightarrow> uuid) \<Rightarrow> 'a \<Rightarrow> 'a list \<Rightarrow> 'a list" where
  "merge_row key e [] = [e]"
| "merge_row key e (r # rs) = (if key r = key e then e # rs else r # merge_row key e rs)"

text \<open>\<^verbatim>\<open>OrderRepository.get_by_id\<close> and \<^verbatim>\<open>update\<close>.\<close>

definition get_order :: "uuid \<Rightarrow> db \<Rightarrow> Order option" where
  "get_order oid s = find (\<lambda>m. order_id m = oid) (orders s)"

text \<open>
  \<^verbatim>\<open>BaseRepository.add\<close> on the order table: \<^verbatim>\<open>session.add(model)\<close> and
  \<^verbatim>\<open>session.flush()\<close>. The flush sends the INSERT, which the database refuses with
  \<^verbatim>\<open>IntegrityError\<close> when a row already has the id or the order number; no row is
  inserted then.
\<close>

definition add_order :: "Order \<Rightarrow> db \<Rightarrow> (error + Order) \<times> db" where
  "add_order entity s =
     (if order_id entity \<in> set (map order_id (orders s))
         \<or> order_number entity \<in> set (map order_number (orders s))
      then (Inl IntegrityError, s)
      else (Inr entity, s\<lparr>orders := orders s @ [entity]\<rparr>))"

definition update_order :: "Order \<Rightarrow> db \<Rightarrow> Order \<times> db" where
  "update_order entity s = (entity, s\<lparr>orders := merge_row order_id entity (orders s)\<rparr>)"

text \<open>\<^verbatim>\<open>InventoryRepository.get_by_id\<close>, \<^verbatim>\<open>update\<close> and \<^verbatim>\<open>add_stock_movement\<close>.\<close>

definition get_inventory_item :: "uuid \<Rightarrow> db \<Rightarrow> InventoryItem option" where
  "get_inventory_item pid s = find (\<lambda>m. inv_id m = pid) (inventory s)"

definition update_inventory :: "InventoryItem \<Rightarrow> db \<Rightarrow> InventoryItem \<times> db" where
  "update_inventory entity s =
     (entity, s\<lparr>inventory := merge_row inv_id entity (inventory s)\<rparr>)"

definition add_stock_movement :: "StockMovement \<Rightarrow> db \<Rightarrow> StockMovement \<times> db" where
  "add_stock_movement movement s = (movement, s\<lparr>movements := movements s @ [movement]\<rparr>)"

text \<open>
  Number formatting. \<open>decimal_digits n\<close> is \<^verbatim>\<open>str(n)\<close> for a natural number;
  \<open>format_0d w n\<close> is the format specification \<^verbatim>\<open>{n:0wd}\<close>, which pads with zeros on the
  left up to the width \<open>w\<close> and never cuts digits; \<open>strftime_Ymd\<close> is
  \<^verbatim>\<open>strftime("%Y%m%d")\<close>.
\<close>

definition digit_char :: "nat \<Rightarrow> char" where
  "digit_char d = ''0123456789'' ! (d mod 10)"

fun decimal_digits :: "nat \<Rightarrow> string" where
  "decimal_digits n =
     (if n < 10 then [digit_char n] else decimal_digits (n div 10) @ [digit_char (n mod 10)])"

declare decimal_digits.simps [simp del]

text \<open>Reading a string of decimal digits back (\<^verbatim>\<open>int(s)\<close>), to say which number a
  formatted sequence component denotes.\<close>

definition digit_value :: "char \<Rightarrow> nat" where
  "digit_value c = of_char c - 48"

definition nat_of_digits :: "string \<Rightarrow> nat" where
  "nat_of_digits ds = foldl (\<lambda>a c. 10 * a + digit_value c) 0 ds"

definition format_0d :: "nat \<Rightarrow> nat \<Rightarrow> string" where
  "format_0d w n = replicate (w - length (decimal_digits n)) (CHR ''0'') @ decimal_digits n"

definition strftime_Ymd :: "datetime \<Rightarrow> string" where
  "strftime_Ymd t = format_0d 4 (year t) @ format_0d 2 (month t) @ format_0d 2 (day t)"

text \<open>
  \<^verbatim>\<open>OrderRepository.generate_order_number\<close>: the count of the organization's rows, then
  \<^verbatim>\<open>f"ORD-{date_str}-{count + 1:05d}"\<close>.
\<close>

definition order_count :: "uuid \<Rightarrow> db \<Rightarrow> nat" where
  "order_count org_id s = length (filter (\<lambda>m. organization_id m = org_id) (orders s))"

definition generate_order_number :: "datetime \<Rightarrow> uuid \<Rightarrow> db \<Rightarrow> string" where
  "generate_order_number now org_id s =
     (let count = order_count org_id s;
          date_str = strftime_Ymd now
      in ''ORD-'' @ date_str @ ''-'' @ format_0d 5 (count + 1))"

section \<open>Order service (src/application/services/order_service.py)\<close>

text \<open>
  Every operation takes the state of the session and returns its outcome with the state it
  leaves: a repository write that precedes a \<^verbatim>\<open>raise\<close> stays in the state. The entities a
  method loads are copies; changing one changes no row until \<^verbatim>\<open>update\<close> writes it. The
  ids \<^verbatim>\<open>uuid4()\<close> draws are arguments.
\<close>

definition create_order ::
  "datetime \<Rightarrow> uuid \<Rightarrow> uuid \<Rightarrow> string \<Rightarrow> string option \<Rightarrow> uuid option \<Rightarrow> db
     \<Rightarrow> (error + Order) \<times> db" where
  "create_order now new_id org_id cust_name cust_email creator s =
     (let number = generate_order_number now org_id s;
          order = \<lparr>order_id = new_id, order_number = number, organization_id = org_id,
                   customer_name = cust_name, customer_email = cust_email, items = [],
                   status = DRAFT, shipping_cost = 0, handling_fee = 0,
                   internal_notes = None, created_by = creator, created_at = now,
                   updated_at = now, confirmed_at = None, shipped_at = None,
                   delivered_at = None\<rparr>
      in add_order order s)"

text \<open>
  \<^verbatim>\<open>unit_price or inventory_item.selling_price\<close>: \<^verbatim>\<open>None\<close> and a zero \<^verbatim>\<open>Decimal\<close> are
  both false.
\<close>

definition price_or :: "decimal option \<Rightarrow> decimal \<Rightarrow> decimal" where
  "price_or price fallback =
     (case price of None \<Rightarrow> fallback | Some p \<Rightarrow> if p = 0 then fallback else p)"

definition add_item_to_order ::
  "datetime \<Rightarrow> uuid \<Rightarrow> uuid \<Rightarrow> uuid \<Rightarrow> int \<Rightarrow> decimal option \<Rightarrow> decimal \<Rightarrow> db
     \<Rightarrow> (error + Order) \<times> db" where
  "add_item_to_order now new_id oid pid qty price discount s =
     (case get_order oid s of
        None \<Rightarrow> (Inl OrderNotFound, s)
      | Some order \<Rightarrow>
          (case get_inventory_item pid s of
             None \<Rightarrow> (Inl ProductNotFound, s)
           | Some inventory_item \<Rightarrow>
               if quantity_available inventory_item < qty then (Inl InsufficientStock, s)
               else
                 (case new_OrderItem new_id (inv_id inventory_item) (inv_name inventory_item)
                         (inv_sku inventory_item) qty
                         (price_or price (selling_price inventory_item)) discount 0 of
                    Inl e \<Rightarrow> (Inl e, s)
                  | Inr item \<Rightarrow>
                      (case add_item now item order of
                         (Inl e, order') \<Rightarrow> (Inl e, s)
                       | (Inr u, order') \<Rightarrow>
                           (case reserve_stock now qty inventory_item of
                              (Inl e, inventory_item') \<Rightarrow> (Inl e, s)
                            | (Inr u', inventory_item') \<Rightarrow>
                                let s1 = snd (update_inventory inventory_item' s);
                                    (saved, s2) = update_order order' s1
                                in (Inr saved, s2))))))"

definition submit_order :: "datetime \<Rightarrow> uuid \<Rightarrow> db \<Rightarrow> (error + Order) \<times> db" where
  "submit_order now oid s =
     (case get_order oid s of
        None \<Rightarrow> (Inl OrderNotFound, s)
      | Some order \<Rightarrow>
          (case submit now order of
             (Inl e, order') \<Rightarrow> (Inl e, s)
           | (Inr u, order') \<Rightarrow> (let (saved, s1) = update_order order' s in (Inr saved, s1))))"

definition confirm_order :: "datetime \<Rightarrow> uuid \<Rightarrow> db \<Rightarrow> (error + Order) \<times> db" where
  "confirm_order now oid s =
     (case get_order oid s of
        None \<Rightarrow> (Inl OrderNotFound, s)
      | Some order \<Rightarrow>
          (case confirm now order of
             (Inl e, order') \<Rightarrow> (Inl e, s)
           | (Inr u, order') \<Rightarrow> (let (saved, s1) = update_order order' s in (Inr saved, s1))))"

text \<open>
  The loop of \<^verbatim>\<open>cancel_order\<close> over the lines of the order: a line whose product is not
  in the repository is passed over; every other line releases its quantity and the item
  is written back before the next line is read.
\<close>

fun release_items :: "datetime \<Rightarrow> OrderItem list \<Rightarrow> db \<Rightarrow> (error + unit) \<times> db" where
  "release_items now [] s = (Inr (), s)"
| "release_items now (item # rest) s =
     (case get_inventory_item (product_id item) s of
        None \<Rightarrow> release_items now rest s
      | Some inventory_item \<Rightarrow>
          (case release_reservation now (quantity item) inventory_item of
             (Inl e, inventory_item') \<Rightarrow> (Inl e, s)
           | (Inr u, inventory_item') \<Rightarrow>
               release_items now rest (snd (update_inventory inventory_item' s))))"

definition cancel_order ::
  "datetime \<Rightarrow> uuid \<Rightarrow> string option \<Rightarrow> db \<Rightarrow> (error + Order) \<times> db" where
  "cancel_order now oid reason s =
     (case get_order oid s of
        None \<Rightarrow> (Inl OrderNotFound, s)
      | Some order \<Rightarrow>
          (case release_items now (items order) s of
             (Inl e, s1) \<Rightarrow> (Inl e, s1)
           | (Inr u, s1) \<Rightarrow>
               (case cancel now reason order of
                  (Inl e, order') \<Rightarrow> (Inl e, s1)
                | (Inr u', order') \<Rightarrow>
                    (let (saved, s2) = update_order order' s1 in (Inr saved, s2)))))"

text \<open>
  The loop of \<^verbatim>\<open>ship_order\<close>: a line whose product is not in the repository is passed
  over; every other line sells its quantity, the movement is recorded and the item written
  back before the next line is read.
\<close>

fun sell_items :: "datetime \<Rightarrow> uuid \<Rightarrow> OrderItem list \<Rightarrow> db \<Rightarrow> (error + unit) \<times> db" where
  "sell_items now oid [] s = (Inr (), s)"
| "sell_items now oid (item # rest) s =
     (case get_inventory_item (product_id item) s of
        None \<Rightarrow> sell_items now oid rest s
      | Some inventory_item \<Rightarrow>
          (case sell_stock now (quantity item) (Some oid) inventory_item of
             (Inl e, inventory_item') \<Rightarrow> (Inl e, s)
           | (Inr movement, inventory_item') \<Rightarrow>
               sell_items now oid rest
                 (snd (update_inventory inventory_item'
                         (snd (add_stock_movement movement s))))))"

definition ship_order ::
  "datetime \<Rightarrow> uuid \<Rightarrow> string option \<Rightarrow> db \<Rightarrow> (error + Order) \<times> db" where
  "ship_order now oid tracking_number s =
     (case get_order oid s of
        None \<Rightarrow> (Inl OrderNotFound, s)
      | Some order \<Rightarrow>
          (case sell_items now oid (items order) s of
             (Inl e, s1) \<Rightarrow> (Inl e, s1)
           | (Inr u, s1) \<Rightarrow>
               (case ship now tracking_number order of
                  (Inl e, order') \<Rightarrow> (Inl e, s1)
                | (Inr u', order') \<Rightarrow>
                    (let (saved, s2) = update_order order' s1 in (Inr saved, s2)))))"

section \<open>Test data\<close>

text \<open>
  The order and the line of the unit tests (tests/unit/test_entities.py, \<^verbatim>\<open>TestOrder\<close>):
  \<^verbatim>\<open>Order(order_number="ORD-001", organization_id=..., customer_name="John Doe")\<close> and
  \<^verbatim>\<open>OrderItem(product_id=..., product_name="Widget", sku="WDG-001", quantity=2,
  unit_price=Decimal("25.00"))\<close>.
\<close>

definition test_widget :: OrderItem where
  "test_widget =
     \<lparr>oi_id = ''line-1'', product_id = ''item-1'', product_name = ''Widget'',
      oi_sku = ''WDG-001'', quantity = 2, unit_price = 25, discount_percent = 0,
      tax_percent = 0\<rparr>"

definition test_order :: "OrderStatus \<Rightarrow> OrderItem list \<Rightarrow> Order" where
  "test_order st its =
     \<lparr>order_id = ''order-1'', order_number = ''ORD-001'', organization_id = ''org-1'',
      customer_name = ''John Doe'', customer_email = None, items = its, status = st,
      shipping_cost = 0, handling_fee = 0, internal_notes = None, created_by = None,
      created_at = \<lparr>year = 2024, month = 1, day = 1, time_of_day = 0\<rparr>,
      updated_at = \<lparr>year = 2024, month = 1, day = 1, time_of_day = 0\<rparr>,
      confirmed_at = None, shipped_at = None, delivered_at = None\<rparr>"

text \<open>
  The item the unit tests build (tests/unit/test_entities.py, \<^verbatim>\<open>TestInventoryItem\<close>):
  \<^verbatim>\<open>InventoryItem(organization_id=..., sku="SKU-001", name="Test Product",
  quantity_on_hand=n)\<close>, every other field at its default.
\<close>

definition test_product :: "int \<Rightarrow> InventoryItem" where
  "test_product n =
     \<lparr>inv_id = ''item-1'', inv_organization_id = ''org-1'', inv_sku = ''SKU-001'',
      inv_name = ''Test Product'', cost_price = 0, selling_price = 0,
      quantity_on_hand = n, quantity_reserved = 0, quantity_on_order = 0,
      reorder_point = 10, is_active = True, is_trackable = True,
      inv_updated_at = \<lparr>year = 2024, month = 1, day = 1, time_of_day = 0\<rparr>\<rparr>"

definition clock :: "nat \<Rightarrow> datetime" where
  "clock t = \<lparr>year = 2024, month = 1, day = 2, time_of_day = t\<rparr>"

text \<open>A session holding one order and one inventory item.\<close>

definition test_db :: "Order \<Rightarrow> InventoryItem \<Rightarrow> db" where
  "test_db order item = \<lparr>orders = [order], inventory = [item], movements = []\<rparr>"

text \<open>The empty session.\<close>

definition empty_db :: db where
  "empty_db = \<lparr>orders = [], inventory = [], movements = []\<rparr>"

text \<open>
  A session in which the organization of the test order has 99999 orders, with ids
  order-0, order-1, ... and the numbers ORD-20240101-00001 to ORD-20240101-99999 of the
  day before \<open>clock\<close>.
\<close>

definition many_orders :: db where
  "many_orders =
     \<lparr>orders = map (\<lambda>k. (test_order DRAFT [])
                          \<lparr>order_id := ''order-'' @ decimal_digits k,
                           order_number := ''ORD-20240101-'' @ format_0d 5 (k + 1)\<rparr>)
                   [0..<99999],
      inventory = [], movements = []\<rparr>"

section \<open>Properties of the stock operations\<close>

lemma stock_step_counters:
  "stock_counters_ok self \<Longrightarrow> stock_counters_ok (stock_step self c)"
proof (cases c)
  case (Pair now call)
  assume ok: "stock_counters_ok self"
  show ?thesis
  proof (cases call)
    case (Reserve q)
    with Pair ok show ?thesis
      by (simp add: stock_counters_ok_def reserve_stock_def)
  next
    case (Release q)
    with Pair ok show ?thesis
      by (simp add: stock_counters_ok_def release_reservation_def)
  next
    case (Sell q r)
    with Pair ok show ?thesis
      by (simp add: stock_counters_ok_def sell_stock_def Let_def)
  next
    case (Receive q r)
    with Pair ok show ?thesis
      by (simp add: stock_counters_ok_def receive_stock_def Let_def)
  next
    case (Adjust q r t)
    with Pair ok show ?thesis
      by (simp add: stock_counters_ok_def adjust_stock_def Let_def)
  qed
qed

lemma stock_foldl_counters:
  "stock_counters_ok self \<Longrightarrow> stock_counters_ok (foldl stock_step self calls)"
  by (induction calls arbitrary: self) (simp_all add: stock_step_counters)

text \<open>
  C2. Starting from an item whose on-hand and reserved quantities are non-negative, any
  sequence of reserve, release, sell, receive and adjust calls, whether each one succeeds
  or fails, leaves both quantities non-negative, and the available quantity is
  \<open>max 0 (on_hand - reserved)\<close>.
\<close>

theorem stock_run_invariant:
  assumes "0 \<le> quantity_on_hand self" and "0 \<le> quantity_reserved self"
  shows "0 \<le> quantity_on_hand (stock_run calls self)
       \<and> 0 \<le> quantity_reserved (stock_run calls self)
       \<and> quantity_available (stock_run calls self)
           = max 0 (quantity_on_hand (stock_run calls self)
                    - quantity_reserved (stock_run calls self))"
proof -
  from assms have "stock_counters_ok self"
    by (simp add: stock_counters_ok_def)
  then have "stock_counters_ok (stock_run calls self)"
    unfolding stock_run_def by (rule stock_foldl_counters)
  then show ?thesis
    by (simp add: stock_counters_ok_def quantity_available_def)
qed

theorem stock_run_invariant_witness:
  "0 \<le> quantity_on_hand (test_product 10) \<and> 0 \<le> quantity_reserved (test_product 10)
   \<and> quantity_on_hand
        (stock_run [(clock 10, Reserve 20), (clock 20, Reserve 5), (clock 30, Sell 3 None),
                    (clock 40, Release 9), (clock 50, Receive 4 None),
                    (clock 60, Adjust (- 50) ''recount'' ADJUSTMENT)] (test_product 10)) = 11
   \<and> quantity_reserved
        (stock_run [(clock 10, Reserve 20), (clock 20, Reserve 5), (clock 30, Sell 3 None),
                    (clock 40, Release 9), (clock 50, Receive 4 None),
                    (clock 60, Adjust (- 50) ''recount'' ADJUSTMENT)] (test_product 10)) = 0
   \<and> quantity_available
        (stock_run [(clock 10, Reserve 20), (clock 20, Reserve 5), (clock 30, Sell 3 None),
                    (clock 40, Release 9), (clock 50, Receive 4 None),
                    (clock 60, Adjust (- 50) ''recount'' ADJUSTMENT)] (test_product 10)) = 11"
  using stock_run_invariant [of "test_product 10"
      "[(clock 10, Reserve 20), (clock 20, Reserve 5), (clock 30, Sell 3 None),
        (clock 40, Release 9), (clock 50, Receive 4 None),
        (clock 60, Adjust (- 50) ''recount'' ADJUSTMENT)]"]
  by (simp add: test_product_def stock_run_def reserve_stock_def release_reservation_def
      sell_stock_def receive_stock_def adjust_stock_def quantity_available_def Let_def)

text \<open>
  C5. For a positive quantity, \<open>reserve_stock\<close> fails with InsufficientStock exactly when
  the quantity exceeds \<open>quantity_available\<close>, and then leaves the item as it was; otherwise
  it succeeds, adds the quantity to \<open>quantity_reserved\<close> and keeps \<open>quantity_on_hand\<close>.
  For an item with 10 on hand and none reserved, reserving 20 fails with InsufficientStock
  and reserving 5 succeeds and leaves 5 available.
\<close>

theorem reserve_stock_spec:
  assumes "0 < qty"
  shows "(fst (reserve_stock now qty self) = Inl InsufficientStock
            \<longleftrightarrow> qty > quantity_available self)
       \<and> (fst (reserve_stock now qty self) = Inr () \<longleftrightarrow> qty \<le> quantity_available self)
       \<and> (qty > quantity_available self \<longrightarrow> snd (reserve_stock now qty self) = self)
       \<and> (qty \<le> quantity_available self \<longrightarrow>
            quantity_reserved (snd (reserve_stock now qty self)) = quantity_reserved self + qty
            \<and> quantity_on_hand (snd (reserve_stock now qty self)) = quantity_on_hand self)
       \<and> (quantity_on_hand self = 10 \<and> quantity_reserved self = 0 \<longrightarrow>
            fst (reserve_stock now 20 self) = Inl InsufficientStock
            \<and> fst (reserve_stock now 5 self) = Inr ()
            \<and> quantity_available (snd (reserve_stock now 5 self)) = 5)"
  using assms by (auto simp add: reserve_stock_def quantity_available_def)

theorem reserve_stock_spec_witness:
  "(0::int) < 5 \<and> (0::int) < 20
   \<and> quantity_on_hand (test_product 10) = 10 \<and> quantity_reserved (test_product 10) = 0
   \<and> quantity_available (test_product 10) = 10
   \<and> fst (reserve_stock (clock 10) 20 (test_product 10)) = Inl InsufficientStock
   \<and> snd (reserve_stock (clock 10) 20 (test_product 10)) = test_product 10
   \<and> fst (reserve_stock (clock 10) 5 (test_product 10)) = Inr ()
   \<and> quantity_reserved (snd (reserve_stock (clock 10) 5 (test_product 10))) = 5
   \<and> quantity_on_hand (snd (reserve_stock (clock 10) 5 (test_product 10))) = 10
   \<and> quantity_available (snd (reserve_stock (clock 10) 5 (test_product 10))) = 5"
proof -
  have av: "quantity_available (test_product 10) = 10"
    by (simp add: quantity_available_def test_product_def)
  have f: "quantity_on_hand (test_product 10) = 10" "quantity_reserved (test_product 10) = 0"
    by (simp_all add: test_product_def)
  from reserve_stock_spec [of 5 "clock 10" "test_product 10"]
       reserve_stock_spec [of 20 "clock 10" "test_product 10"] av f
  show ?thesis by simp
qed

text \<open>
  C6. For a positive quantity and an item whose reserved quantity meets its field
  constraint (\<open>\<ge> 0\<close>), \<open>sell_stock\<close> fails with InsufficientStock when the quantity
  exceeds \<open>quantity_on_hand\<close> and then changes nothing; otherwise it takes the quantity
  off \<open>quantity_on_hand\<close>, takes it off \<open>quantity_reserved\<close> clamped at 0, and returns a
  movement of type SALE with quantity \<open>- qty\<close> and \<open>quantity_after\<close> the new on-hand
  quantity.
\<close>

theorem sell_stock_spec:
  assumes "0 < qty" and "0 \<le> quantity_reserved self"
  shows "(qty > quantity_on_hand self \<longrightarrow>
            sell_stock now qty order_ref self = (Inl InsufficientStock, self))
       \<and> (qty \<le> quantity_on_hand self \<longrightarrow>
            quantity_on_hand (snd (sell_stock now qty order_ref self))
              = quantity_on_hand self - qty
            \<and> quantity_reserved (snd (sell_stock now qty order_ref self))
              = max 0 (quantity_reserved self - qty)
            \<and> (\<exists>m. fst (sell_stock now qty order_ref self) = Inr m
                 \<and> movement_type m = SALE
                 \<and> mv_quantity m = - qty
                 \<and> quantity_after m
                     = quantity_on_hand (snd (sell_stock now qty order_ref self))))"
  using assms by (simp add: sell_stock_def new_StockMovement_def Let_def)

theorem sell_stock_spec_witness:
  "(0::int) < 3 \<and> (0::int) < 11
   \<and> 0 \<le> quantity_reserved (snd (reserve_stock (clock 10) 2 (test_product 10)))
   \<and> sell_stock (clock 20) 11 None (snd (reserve_stock (clock 10) 2 (test_product 10)))
       = (Inl InsufficientStock, snd (reserve_stock (clock 10) 2 (test_product 10)))
   \<and> quantity_on_hand
        (snd (sell_stock (clock 20) 3 None (snd (reserve_stock (clock 10) 2 (test_product 10)))))
       = 7
   \<and> quantity_reserved
        (snd (sell_stock (clock 20) 3 None (snd (reserve_stock (clock 10) 2 (test_product 10)))))
       = 0
   \<and> fst (sell_stock (clock 20) 3 None (snd (reserve_stock (clock 10) 2 (test_product 10))))
       = Inr \<lparr>inventory_item_id = ''item-1'', movement_type = SALE, mv_quantity = - 3,
               quantity_after = 7, reference = None\<rparr>"
proof -
  have r: "snd (reserve_stock (clock 10) 2 (test_product 10))
             = (test_product 10)\<lparr>quantity_reserved := 2, inv_updated_at := clock 10\<rparr>"
    by (simp add: reserve_stock_def quantity_available_def test_product_def)
  have h: "0 \<le> quantity_reserved (snd (reserve_stock (clock 10) 2 (test_product 10)))"
          "quantity_on_hand (snd (reserve_stock (clock 10) 2 (test_product 10))) = 10"
    unfolding r by (simp_all add: test_product_def)
  from sell_stock_spec [of 3 "snd (reserve_stock (clock 10) 2 (test_product 10))" "clock 20" None]
       sell_stock_spec [of 11 "snd (reserve_stock (clock 10) 2 (test_product 10))" "clock 20" None]
       h
  show ?thesis
    by (simp add: r) (simp add: sell_stock_def new_StockMovement_def Let_def test_product_def)
qed

text \<open>
  C7. For a positive quantity and an item whose reserved quantity meets its field
  constraint (\<open>\<ge> 0\<close>): when \<open>reserve_stock\<close> succeeds, releasing the same quantity right
  after it brings \<open>quantity_reserved\<close> back to its value before the reservation. A release
  never fails for a positive quantity and never leaves a negative reservation; with nothing
  reserved it leaves 0, whatever the quantity.
\<close>

theorem reserve_release_inverse:
  assumes "0 < qty" and "0 \<le> quantity_reserved self"
  shows "(fst (reserve_stock now qty self) = Inr () \<longrightarrow>
            fst (release_reservation now' qty (snd (reserve_stock now qty self))) = Inr ()
            \<and> quantity_reserved
                (snd (release_reservation now' qty (snd (reserve_stock now qty self))))
               = quantity_reserved self)
       \<and> fst (release_reservation now' qty self) = Inr ()
       \<and> quantity_reserved (snd (release_reservation now' qty self))
           = max 0 (quantity_reserved self - qty)
       \<and> 0 \<le> quantity_reserved (snd (release_reservation now' qty self))
       \<and> (quantity_reserved self = 0 \<longrightarrow>
            quantity_reserved (snd (release_reservation now' qty self)) = 0)"
  using assms by (simp add: reserve_stock_def release_reservation_def)

theorem reserve_release_inverse_witness:
  "(0::int) < 4 \<and> 0 \<le> quantity_reserved (test_product 10)
   \<and> fst (reserve_stock (clock 10) 4 (test_product 10)) = Inr ()
   \<and> quantity_reserved (snd (reserve_stock (clock 10) 4 (test_product 10))) = 4
   \<and> quantity_reserved
        (snd (release_reservation (clock 20) 4 (snd (reserve_stock (clock 10) 4 (test_product 10)))))
       = 0
   \<and> quantity_reserved (test_product 10) = 0
   \<and> quantity_reserved (snd (release_reservation (clock 20) 4 (test_product 10))) = 0"
proof -
  have h: "0 \<le> quantity_reserved (test_product 10)" "quantity_reserved (test_product 10) = 0"
    by (simp_all add: test_product_def)
  have ok: "fst (reserve_stock (clock 10) 4 (test_product 10)) = Inr ()"
           "quantity_reserved (snd (reserve_stock (clock 10) 4 (test_product 10))) = 4"
    by (simp_all add: reserve_stock_def quantity_available_def test_product_def)
  from reserve_release_inverse [of 4 "test_product 10" "clock 10" "clock 20"] h ok
  show ?thesis by simp
qed

section \<open>Properties of the order entity\<close>

lemma foldl_plus_sum_list: "foldl (+) a xs = (a::'a::monoid_add) + sum_list xs"
  by (induction xs arbitrary: a) (simp_all add: add.assoc)

lemma py_sum_sum_list: "py_sum xs = sum_list xs"
  unfolding py_sum_def by (simp add: foldl_plus_sum_list)

lemma order_step_graph:
  "(case lifecycle_target c (status self) of
      None \<Rightarrow> order_step now c self = (Inl InvalidTransition, self)
    | Some t \<Rightarrow>
        (fst (order_step now c self) = Inr () \<and> status (snd (order_step now c self)) = t)
        \<or> (order_step now c self = (Inl EmptyOrder, self) \<and> items self = []
            \<and> (c = Submit \<or> c = Confirm)))"
  by (cases c; cases "status self")
     (auto simp add: submit_def confirm_def ship_def deliver_def cancel_def can_cancel_def
        append_note_def split: option.splits)

lemma order_log_graph:
  "\<forall>(c, r, s, s') \<in> set (order_log self calls).
     (case lifecycle_target c s of
        None \<Rightarrow> r = Inl InvalidTransition \<and> s' = s
      | Some t \<Rightarrow> (r = Inr () \<and> s' = t) \<or> (r = Inl EmptyOrder \<and> s' = s))"
proof (induction calls arbitrary: self)
  case Nil
  show ?case by simp
next
  case (Cons nc calls)
  obtain now c where nc: "nc = (now, c)" by (cases nc)
  have head: "case lifecycle_target c (status self) of
                None \<Rightarrow> fst (order_step now c self) = Inl InvalidTransition
                         \<and> status (snd (order_step now c self)) = status self
              | Some t \<Rightarrow>
                  (fst (order_step now c self) = Inr ()
                     \<and> status (snd (order_step now c self)) = t)
                  \<or> (fst (order_step now c self) = Inl EmptyOrder
                     \<and> status (snd (order_step now c self)) = status self)"
    using order_step_graph [where c = c and self = self and now = now]
    by (auto split: option.splits)
  from head Cons.IH [of "snd (order_step now c self)"] show ?case
    by (simp add: nc)
qed

text \<open>
  C3. Each of submit, confirm, ship, deliver and cancel, called on any order, either is not
  permitted from the order's status, and then fails with InvalidTransition and leaves the
  whole order (so its status) unchanged, or is permitted, and then either succeeds and puts
  the order into the status the lifecycle graph gives for that call (DRAFT to PENDING,
  PENDING to CONFIRMED, CONFIRMED or PROCESSING to SHIPPED, SHIPPED to DELIVERED, and any
  of DRAFT, PENDING, CONFIRMED, PROCESSING to CANCELLED), or is a submit or confirm of an
  order without lines, which fails with EmptyOrder and leaves the order unchanged. The same
  holds of every call in every sequence of calls on one order.
\<close>

theorem order_lifecycle:
  "(case lifecycle_target c (status self) of
      None \<Rightarrow> order_step now c self = (Inl InvalidTransition, self)
    | Some t \<Rightarrow>
        (fst (order_step now c self) = Inr () \<and> status (snd (order_step now c self)) = t)
        \<or> (order_step now c self = (Inl EmptyOrder, self) \<and> items self = []
            \<and> (c = Submit \<or> c = Confirm)))
   \<and> (\<forall>(c, r, s, s') \<in> set (order_log self calls).
        (case lifecycle_target c s of
           None \<Rightarrow> r = Inl InvalidTransition \<and> s' = s
         | Some t \<Rightarrow> (r = Inr () \<and> s' = t) \<or> (r = Inl EmptyOrder \<and> s' = s)))"
  using order_step_graph [where c = c and self = self and now = now]
        order_log_graph [where self = self and calls = calls] by blast

theorem order_lifecycle_witness:
  "order_log (test_order DRAFT [test_widget])
     [(clock 10, Confirm), (clock 20, Submit), (clock 30, Submit), (clock 40, Deliver),
      (clock 50, Confirm), (clock 60, Ship None), (clock 70, Cancel (Some ''late'')),
      (clock 80, Deliver), (clock 90, Ship None)]
   = [(Confirm, Inl InvalidTransition, DRAFT, DRAFT),
      (Submit, Inr (), DRAFT, PENDING),
      (Submit, Inl InvalidTransition, PENDING, PENDING),
      (Deliver, Inl InvalidTransition, PENDING, PENDING),
      (Confirm, Inr (), PENDING, CONFIRMED),
      (Ship None, Inr (), CONFIRMED, SHIPPED),
      (Cancel (Some ''late''), Inl InvalidTransition, SHIPPED, SHIPPED),
      (Deliver, Inr (), SHIPPED, DELIVERED),
      (Ship None, Inl InvalidTransition, DELIVERED, DELIVERED)]
   \<and> order_step (clock 10) Submit (test_order DRAFT [])
       = (Inl EmptyOrder, test_order DRAFT [])
   \<and> fst (order_step (clock 10) (Cancel None) (test_order PROCESSING [test_widget])) = Inr ()
   \<and> status (snd (order_step (clock 10) (Cancel None) (test_order PROCESSING [test_widget])))
       = CANCELLED"
  using order_lifecycle [where c = Submit and self = "test_order DRAFT [test_widget]"
          and now = "clock 10" and calls =
          "[(clock 10, Confirm), (clock 20, Submit), (clock 30, Submit), (clock 40, Deliver),
            (clock 50, Confirm), (clock 60, Ship None), (clock 70, Cancel (Some ''late'')),
            (clock 80, Deliver), (clock 90, Ship None)]"]
        order_lifecycle [where c = "Cancel None"
          and self = "test_order PROCESSING [test_widget]" and now = "clock 10"
          and calls = "[]"]
  by (simp add: test_order_def submit_def confirm_def ship_def deliver_def cancel_def
      can_cancel_def append_note_def)

text \<open>
  C4. The grand total of an order is the sum of the totals of its lines plus the shipping
  cost plus the handling fee, where for a line subtotal = unit_price * quantity,
  discount_amount = subtotal * discount_percent / 100, taxable_amount = subtotal -
  discount_amount, tax_amount = taxable_amount * tax_percent / 100 and total =
  taxable_amount + tax_amount. The total is a function of the current lines, the shipping
  cost and the handling fee alone (nothing is stored), so two reads of an order that has not
  changed are equal, and a read after a line was added counts the new line.
\<close>

theorem grand_total_spec:
  "grand_total self
     = sum_list (map item_total (items self)) + shipping_cost self + handling_fee self
   \<and> item_subtotal i = unit_price i * of_int (quantity i)
   \<and> discount_amount i = item_subtotal i * discount_percent i / 100
   \<and> taxable_amount i = item_subtotal i - discount_amount i
   \<and> tax_amount i = taxable_amount i * tax_percent i / 100
   \<and> item_total i = taxable_amount i + tax_amount i
   \<and> (items other = items self \<and> shipping_cost other = shipping_cost self
        \<and> handling_fee other = handling_fee self \<longrightarrow> grand_total other = grand_total self)
   \<and> (fst (add_item now i self) = Inr () \<longrightarrow>
        grand_total (snd (add_item now i self)) = grand_total self + item_total i)"
proof -
  have g: "\<And>x. grand_total x
             = sum_list (map item_total (items x)) + shipping_cost x + handling_fee x"
    by (simp add: grand_total_def py_sum_sum_list)
  have a: "fst (add_item now i self) = Inr () \<longrightarrow>
             grand_total (snd (add_item now i self)) = grand_total self + item_total i"
    by (simp add: g add_item_def)
  show ?thesis
    using a by (simp add: g item_subtotal_def discount_amount_def taxable_amount_def
        tax_amount_def item_total_def)
qed

theorem grand_total_spec_witness:
  "items ((test_order PENDING [test_widget])\<lparr>customer_name := ''Jane Doe''\<rparr>)
     = items (test_order PENDING [test_widget])
   \<and> grand_total ((test_order PENDING [test_widget])\<lparr>customer_name := ''Jane Doe''\<rparr>) = 50
   \<and> grand_total (test_order PENDING [test_widget]) = 50
   \<and> fst (add_item (clock 10)
            (test_widget\<lparr>quantity := 3, unit_price := 10, discount_percent := 10,
                          tax_percent := 20\<rparr>)
            (test_order PENDING [test_widget])) = Inr ()
   \<and> item_total (test_widget\<lparr>quantity := 3, unit_price := 10, discount_percent := 10,
                               tax_percent := 20\<rparr>) = 162 / 5
   \<and> grand_total (snd (add_item (clock 10)
            (test_widget\<lparr>quantity := 3, unit_price := 10, discount_percent := 10,
                          tax_percent := 20\<rparr>)
            (test_order PENDING [test_widget]))) = 412 / 5"
proof -
  have ok: "fst (add_item (clock 10)
            (test_widget\<lparr>quantity := 3, unit_price := 10, discount_percent := 10,
                          tax_percent := 20\<rparr>)
            (test_order PENDING [test_widget])) = Inr ()"
    by (simp add: add_item_def can_modify_def test_order_def)
  have w: "item_total test_widget = 50"
    by (simp add: item_total_def taxable_amount_def tax_amount_def discount_amount_def
        item_subtotal_def test_widget_def)
  have f: "items (test_order PENDING [test_widget]) = [test_widget]"
          "shipping_cost (test_order PENDING [test_widget]) = 0"
          "handling_fee (test_order PENDING [test_widget]) = 0"
    by (simp_all add: test_order_def)
  from grand_total_spec [where self = "test_order PENDING [test_widget]"
         and i = "test_widget\<lparr>quantity := 3, unit_price := 10, discount_percent := 10,
                       tax_percent := 20\<rparr>"
         and other = "(test_order PENDING [test_widget])\<lparr>customer_name := ''Jane Doe''\<rparr>"
         and now = "clock 10"]
       ok w f
  show ?thesis
    by (simp add: test_widget_def)
qed

section \<open>Properties of the order service\<close>

subsection \<open>Repository and formatting lemmas\<close>

lemma find_merge_row_same:
  "find (\<lambda>m. key m = key e) (merge_row key e rows) = Some e"
  by (induction rows) simp_all

lemma find_merge_row_other:
  "k \<noteq> key e \<Longrightarrow> find (\<lambda>m. key m = k) (merge_row key e rows) = find (\<lambda>m. key m = k) rows"
  by (induction rows) auto

lemma find_key: "find (\<lambda>m. key m = k) rows = Some e \<Longrightarrow> key e = k"
  by (induction rows) (auto split: if_splits)

lemma get_order_key: "get_order oid s = Some order \<Longrightarrow> order_id order = oid"
  unfolding get_order_def by (rule find_key)

lemma get_order_update_order:
  "order_id e = oid \<Longrightarrow> get_order oid (snd (update_order e s)) = Some e"
  using find_merge_row_same [of order_id e "orders s"]
  by (auto simp add: get_order_def update_order_def)

lemma price_or_zero: "price_or (Some 0) fallback = price_or None fallback"
  by (simp add: price_or_def)

lemma length_decimal_digits_pos: "0 < length (decimal_digits n)"
  by (subst decimal_digits.simps) simp

lemma length_decimal_digits_le:
  "1 \<le> k \<Longrightarrow> length (decimal_digits n) \<le> k \<longleftrightarrow> n < 10 ^ k"
proof (induction n arbitrary: k rule: decimal_digits.induct)
  case (1 n)
  show ?case
  proof (cases "n < 10")
    case True
    have "(10::nat) ^ 1 \<le> 10 ^ k" using "1.prems" by (intro power_increasing) simp_all
    with True "1.prems" show ?thesis by (simp add: decimal_digits.simps [of n])
  next
    case False
    show ?thesis
    proof (cases "k = 1")
      case True
      with False length_decimal_digits_pos [of "n div 10"] show ?thesis
        by (simp add: decimal_digits.simps [of n])
    next
      case k: False
      with "1.prems" obtain j where j: "k = Suc j" "1 \<le> j" by (cases k) auto
      have "length (decimal_digits (n div 10)) \<le> j \<longleftrightarrow> n div 10 < 10 ^ j"
        using "1.IH" [OF False j(2)] .
      moreover have "n div 10 < 10 ^ j \<longleftrightarrow> n < 10 ^ k"
        unfolding j(1) by (simp add: div_less_iff_less_mult mult.commute)
      ultimately show ?thesis using False j by (simp add: decimal_digits.simps [of n])
    qed
  qed
qed

lemma length_format_0d: "length (format_0d w n) = max w (length (decimal_digits n))"
  by (simp add: format_0d_def)

lemma length_format_0d_eq: "1 \<le> w \<Longrightarrow> length (format_0d w n) = w \<longleftrightarrow> n < 10 ^ w"
  using length_decimal_digits_le [of w n] by (auto simp add: length_format_0d)

lemma length_strftime_Ymd:
  assumes "1000 \<le> year t" "year t \<le> 9999" "month t \<le> 12" "day t \<le> 31"
  shows "length (strftime_Ymd t) = 8"
proof -
  have "length (format_0d 4 (year t)) = 4" "length (format_0d 2 (month t)) = 2"
       "length (format_0d 2 (day t)) = 2"
    using assms by (simp_all add: length_format_0d_eq)
  then show ?thesis by (simp add: strftime_Ymd_def)
qed

subsection \<open>The loops over the lines of an order\<close>













subsection \<open>Failure after the inventory was written\<close>

text \<open>
  C1. The claim does not hold of the code: \<open>cancel_order\<close> and \<open>ship_order\<close> walk the lines
  and write the inventory before the order's own status guard runs. On a SHIPPED order with
  one line of 2 units whose item has 10 on hand and 2 reserved, \<open>cancel_order\<close> fails with
  InvalidTransition and the order row keeps its status, but the item's reservation has gone
  from 2 to 0. On a DELIVERED order with the same line, \<open>ship_order\<close> fails with
  InvalidTransition after it has taken the item from 10 to 8 on hand and from 2 to 0
  reserved and recorded a SALE movement.
\<close>

theorem cancel_ship_fail_after_inventory_write:
  "cancel_order (clock 10) ''order-1'' None
      (test_db (test_order SHIPPED [test_widget]) ((test_product 10)\<lparr>quantity_reserved := 2\<rparr>))
    = (Inl InvalidTransition,
       test_db (test_order SHIPPED [test_widget])
         ((test_product 10)\<lparr>quantity_reserved := 0, inv_updated_at := clock 10\<rparr>))
   \<and> ship_order (clock 10) ''order-1'' None
      (test_db (test_order DELIVERED [test_widget])
         ((test_product 10)\<lparr>quantity_reserved := 2\<rparr>))
    = (Inl InvalidTransition,
       \<lparr>orders = [test_order DELIVERED [test_widget]],
        inventory = [(test_product 10)\<lparr>quantity_on_hand := 8, quantity_reserved := 0,
                                       inv_updated_at := clock 10\<rparr>],
        movements = [\<lparr>inventory_item_id = ''item-1'', movement_type = SALE, mv_quantity = - 2,
                      quantity_after = 8, reference = Some ''order-1''\<rparr>]\<rparr>)"
proof -
  have "cancel_order (clock 10) ''order-1'' None
      (test_db (test_order SHIPPED [test_widget]) ((test_product 10)\<lparr>quantity_reserved := 2\<rparr>))
    = (Inl InvalidTransition,
       test_db (test_order SHIPPED [test_widget])
         ((test_product 10)\<lparr>quantity_reserved := 0, inv_updated_at := clock 10\<rparr>))"
    by (simp add: cancel_order_def test_db_def get_order_def get_inventory_item_def
        test_order_def test_widget_def test_product_def release_reservation_def
        update_inventory_def cancel_def can_cancel_def)
  moreover have "ship_order (clock 10) ''order-1'' None
      (test_db (test_order DELIVERED [test_widget])
         ((test_product 10)\<lparr>quantity_reserved := 2\<rparr>))
    = (Inl InvalidTransition,
       \<lparr>orders = [test_order DELIVERED [test_widget]],
        inventory = [(test_product 10)\<lparr>quantity_on_hand := 8, quantity_reserved := 0,
                                       inv_updated_at := clock 10\<rparr>],
        movements = [\<lparr>inventory_item_id = ''item-1'', movement_type = SALE, mv_quantity = - 2,
                      quantity_after = 8, reference = Some ''order-1''\<rparr>]\<rparr>)"
    by (simp add: ship_order_def test_db_def get_order_def get_inventory_item_def
        test_order_def test_widget_def test_product_def sell_stock_def update_inventory_def
        ship_def add_stock_movement_def new_StockMovement_def Let_def)
  ultimately show ?thesis by simp
qed

subsection \<open>Order numbers\<close>

text \<open>The formatted sequence component reads back as the number it was made from.\<close>

lemma digit_value_digit_char: "d < 10 \<Longrightarrow> digit_value (digit_char d) = d"
proof -
  assume "d < 10"
  then have "d = 0 \<or> d = 1 \<or> d = 2 \<or> d = 3 \<or> d = 4 \<or> d = 5 \<or> d = 6
    \<or> d = 7 \<or> d = 8 \<or> d = 9"
    by arith
  then show ?thesis
    by (elim disjE) (simp_all add: digit_char_def digit_value_def)
qed

lemma nat_of_digits_snoc:
  "nat_of_digits (ds @ [c]) = 10 * nat_of_digits ds + digit_value c"
  by (simp add: nat_of_digits_def)

lemma nat_of_digits_decimal_digits: "nat_of_digits (decimal_digits n) = n"
proof (induction n rule: decimal_digits.induct)
  case (1 n)
  show ?case
  proof (cases "n < 10")
    case True
    then show ?thesis
      by (simp add: decimal_digits.simps [of n] nat_of_digits_def digit_value_digit_char)
  next
    case False
    with "1.IH" show ?thesis
      by (simp add: decimal_digits.simps [of n] nat_of_digits_snoc digit_value_digit_char)
  qed
qed

lemma nat_of_digits_zeros: "nat_of_digits (replicate k (CHR ''0'') @ ds) = nat_of_digits ds"
proof -
  have z: "foldl (\<lambda>a c. 10 * a + digit_value c) 0 (replicate k (CHR ''0'')) = 0"
    by (induction k) (simp_all add: digit_value_def)
  show ?thesis by (simp add: nat_of_digits_def z)
qed

lemma nat_of_digits_format_0d: "nat_of_digits (format_0d w n) = n"
  by (simp add: format_0d_def nat_of_digits_zeros nat_of_digits_decimal_digits)

lemma decimal_digits_inj: "decimal_digits m = decimal_digits n \<Longrightarrow> m = n"
  by (metis nat_of_digits_decimal_digits)

lemma format_0d_inj: "format_0d w m = format_0d w n \<Longrightarrow> m = n"
  by (metis nat_of_digits_format_0d)

text \<open>
  What \<open>create_order\<close> does: it fails with IntegrityError, inserting nothing, exactly when
  the new id or the generated number is already in the order table; otherwise the order
  it inserts is in DRAFT and carries the number ORD-, the date, a dash and the
  organization's order count plus one padded to at least five digits.
\<close>

lemma create_order_cases:
  "create_order now new_id org_id cn ce cb s =
     (if new_id \<in> set (map order_id (orders s))
         \<or> generate_order_number now org_id s \<in> set (map order_number (orders s))
      then (Inl IntegrityError, s)
      else (Inr \<lparr>order_id = new_id, order_number = generate_order_number now org_id s,
                 organization_id = org_id, customer_name = cn, customer_email = ce,
                 items = [], status = DRAFT, shipping_cost = 0, handling_fee = 0,
                 internal_notes = None, created_by = cb, created_at = now,
                 updated_at = now, confirmed_at = None, shipped_at = None,
                 delivered_at = None\<rparr>,
            s\<lparr>orders := orders s
                 @ [\<lparr>order_id = new_id, order_number = generate_order_number now org_id s,
                     organization_id = org_id, customer_name = cn, customer_email = ce,
                     items = [], status = DRAFT, shipping_cost = 0, handling_fee = 0,
                     internal_notes = None, created_by = cb, created_at = now,
                     updated_at = now, confirmed_at = None, shipped_at = None,
                     delivered_at = None\<rparr>]\<rparr>))"
  by (simp add: create_order_def add_order_def Let_def)

lemma create_order_success:
  assumes "fst (create_order now new_id org_id cn ce cb s) = Inr order"
  shows "order_number order
           = ''ORD-'' @ strftime_Ymd now @ ''-'' @ format_0d 5 (order_count org_id s + 1)"
    and "nat_of_digits (format_0d 5 (order_count org_id s + 1)) = order_count org_id s + 1"
    and "length (format_0d 5 (order_count org_id s + 1)) = 5
           \<longleftrightarrow> order_count org_id s + 1 < 100000"
    and "status order = DRAFT"
    and "orders (snd (create_order now new_id org_id cn ce cb s)) = orders s @ [order]"
proof -
  from assms have o: "order = \<lparr>order_id = new_id,
      order_number = generate_order_number now org_id s, organization_id = org_id,
      customer_name = cn, customer_email = ce, items = [], status = DRAFT,
      shipping_cost = 0, handling_fee = 0, internal_notes = None, created_by = cb,
      created_at = now, updated_at = now, confirmed_at = None, shipped_at = None,
      delivered_at = None\<rparr>"
    and fresh: "\<not> (new_id \<in> set (map order_id (orders s))
         \<or> generate_order_number now org_id s \<in> set (map order_number (orders s)))"
    unfolding create_order_cases by (auto split: if_splits)
  show "order_number order
           = ''ORD-'' @ strftime_Ymd now @ ''-'' @ format_0d 5 (order_count org_id s + 1)"
    by (simp add: o generate_order_number_def Let_def)
  show "nat_of_digits (format_0d 5 (order_count org_id s + 1)) = order_count org_id s + 1"
    by (rule nat_of_digits_format_0d)
  show "length (format_0d 5 (order_count org_id s + 1)) = 5
           \<longleftrightarrow> order_count org_id s + 1 < 100000"
    using length_format_0d_eq [of 5 "order_count org_id s + 1"] by simp
  show "status order = DRAFT"
    by (simp add: o)
  show "orders (snd (create_order now new_id org_id cn ce cb s)) = orders s @ [order]"
    using fresh unfolding create_order_cases by (simp add: o)
qed

text \<open>The two sessions the order numbers are evaluated in.\<close>

lemma distinct_many_orders:
  "distinct (map order_id (orders many_orders))"
  "distinct (map order_number (orders many_orders))"
  by (auto simp add: many_orders_def distinct_map o_def inj_on_def
      dest: decimal_digits_inj format_0d_inj)

lemma order_count_many_orders: "order_count ''org-1'' many_orders = 99999"
  by (simp add: many_orders_def order_count_def filter_map o_def test_order_def)

lemma fresh_many_orders:
  "''new-order'' \<notin> set (map order_id (orders many_orders))"
  "''ORD-20240102-100000'' \<notin> set (map order_number (orders many_orders))"
  by (auto simp add: many_orders_def)

lemma strftime_clock: "strftime_Ymd (clock t) = ''20240102''"
  by (simp add: strftime_Ymd_def clock_def format_0d_def decimal_digits.simps digit_char_def)

lemma format_100000: "format_0d 5 100000 = ''100000''"
  by (simp add: format_0d_def decimal_digits.simps digit_char_def)

lemma format_1: "format_0d 5 (Suc 0) = ''00001''"
  by (simp add: format_0d_def decimal_digits.simps digit_char_def) (simp add: numeral_eq_Suc)

lemma number_many_orders:
  "generate_order_number (clock 10) ''org-1'' many_orders = ''ORD-20240102-100000''"
  by (simp add: generate_order_number_def order_count_many_orders strftime_clock format_100000)

lemma create_many:
  "create_order (clock 10) ''new-order'' ''org-1'' ''John Doe'' None None many_orders
     = (Inr \<lparr>order_id = ''new-order'', order_number = ''ORD-20240102-100000'',
              organization_id = ''org-1'', customer_name = ''John Doe'',
              customer_email = None, items = [], status = DRAFT, shipping_cost = 0,
              handling_fee = 0, internal_notes = None, created_by = None,
              created_at = clock 10, updated_at = clock 10, confirmed_at = None,
              shipped_at = None, delivered_at = None\<rparr>,
        many_orders\<lparr>orders := orders many_orders
           @ [\<lparr>order_id = ''new-order'', order_number = ''ORD-20240102-100000'',
              organization_id = ''org-1'', customer_name = ''John Doe'',
              customer_email = None, items = [], status = DRAFT, shipping_cost = 0,
              handling_fee = 0, internal_notes = None, created_by = None,
              created_at = clock 10, updated_at = clock 10, confirmed_at = None,
              shipped_at = None, delivered_at = None\<rparr>]\<rparr>)"
  using fresh_many_orders
  by (simp add: create_order_def add_order_def number_many_orders Let_def)

lemma create_first:
  "create_order (clock 10) ''order-1'' ''org-1'' ''John Doe'' None None empty_db
     = (Inr \<lparr>order_id = ''order-1'', order_number = ''ORD-20240102-00001'',
              organization_id = ''org-1'', customer_name = ''John Doe'',
              customer_email = None, items = [], status = DRAFT, shipping_cost = 0,
              handling_fee = 0, internal_notes = None, created_by = None,
              created_at = clock 10, updated_at = clock 10, confirmed_at = None,
              shipped_at = None, delivered_at = None\<rparr>,
        \<lparr>orders = [\<lparr>order_id = ''order-1'', order_number = ''ORD-20240102-00001'',
              organization_id = ''org-1'', customer_name = ''John Doe'',
              customer_email = None, items = [], status = DRAFT, shipping_cost = 0,
              handling_fee = 0, internal_notes = None, created_by = None,
              created_at = clock 10, updated_at = clock 10, confirmed_at = None,
              shipped_at = None, delivered_at = None\<rparr>],
          inventory = [], movements = []\<rparr>)"
  by (simp add: create_order_def add_order_def generate_order_number_def order_count_def
      empty_db_def strftime_clock format_1 Let_def)

lemma create_second:
  "create_order (clock 20) ''order-2'' ''org-2'' ''Jane Roe'' None None
      (snd (create_order (clock 10) ''order-1'' ''org-1'' ''John Doe'' None None empty_db))
     = (Inl IntegrityError,
        snd (create_order (clock 10) ''order-1'' ''org-1'' ''John Doe'' None None empty_db))"
  unfolding create_first
  by (simp add: create_order_def add_order_def generate_order_number_def order_count_def
      strftime_clock format_1 Let_def)

text \<open>
  C8. The claim does not hold of the code for every organization, in two ways, and the
  code's own words are on the claim's side: the docstring of \<open>generate_order_number\<close>
  promises a unique order number for the organization, and its comment gives the format
  with a sequence of five characters.
  \<^item> The number carries no organization, and the column \<^verbatim>\<open>order_number\<close> is unique
    over the whole table. After the first order of organization org-1 on a day has got
    ORD-20240102-00001, the first order of organization org-2 on the same day is given the
    same number, the INSERT is refused with IntegrityError, and no order is created.
  \<^item> The format \<^verbatim>\<open>05d\<close> is a minimum width. In a well-formed session (distinct ids,
    distinct numbers) in which the organization has 99999 orders, the next order gets
    ORD-20240102-100000, a sequence component of six digits.
\<close>

theorem create_order_number_defects:
  "create_order (clock 10) ''order-1'' ''org-1'' ''John Doe'' None None empty_db
     = (Inr \<lparr>order_id = ''order-1'', order_number = ''ORD-20240102-00001'',
              organization_id = ''org-1'', customer_name = ''John Doe'',
              customer_email = None, items = [], status = DRAFT, shipping_cost = 0,
              handling_fee = 0, internal_notes = None, created_by = None,
              created_at = clock 10, updated_at = clock 10, confirmed_at = None,
              shipped_at = None, delivered_at = None\<rparr>,
        \<lparr>orders = [\<lparr>order_id = ''order-1'', order_number = ''ORD-20240102-00001'',
              organization_id = ''org-1'', customer_name = ''John Doe'',
              customer_email = None, items = [], status = DRAFT, shipping_cost = 0,
              handling_fee = 0, internal_notes = None, created_by = None,
              created_at = clock 10, updated_at = clock 10, confirmed_at = None,
              shipped_at = None, delivered_at = None\<rparr>],
          inventory = [], movements = []\<rparr>)
   \<and> create_order (clock 20) ''order-2'' ''org-2'' ''Jane Roe'' None None
      (snd (create_order (clock 10) ''order-1'' ''org-1'' ''John Doe'' None None empty_db))
     = (Inl IntegrityError,
        snd (create_order (clock 10) ''order-1'' ''org-1'' ''John Doe'' None None empty_db))
   \<and> distinct (map order_id (orders many_orders))
   \<and> distinct (map order_number (orders many_orders))
   \<and> order_count ''org-1'' many_orders = 99999
   \<and> create_order (clock 10) ''new-order'' ''org-1'' ''John Doe'' None None many_orders
     = (Inr \<lparr>order_id = ''new-order'', order_number = ''ORD-20240102-100000'',
              organization_id = ''org-1'', customer_name = ''John Doe'',
              customer_email = None, items = [], status = DRAFT, shipping_cost = 0,
              handling_fee = 0, internal_notes = None, created_by = None,
              created_at = clock 10, updated_at = clock 10, confirmed_at = None,
              shipped_at = None, delivered_at = None\<rparr>,
        many_orders\<lparr>orders := orders many_orders
           @ [\<lparr>order_id = ''new-order'', order_number = ''ORD-20240102-100000'',
              organization_id = ''org-1'', customer_name = ''John Doe'',
              customer_email = None, items = [], status = DRAFT, shipping_cost = 0,
              handling_fee = 0, internal_notes = None, created_by = None,
              created_at = clock 10, updated_at = clock 10, confirmed_at = None,
              shipped_at = None, delivered_at = None\<rparr>]\<rparr>)"
  by (intro conjI)
     (rule create_first, rule create_second, rule distinct_many_orders(1),
      rule distinct_many_orders(2), rule order_count_many_orders, rule create_many)

subsection \<open>Price override\<close>

text \<open>
  C9. A call of \<open>add_item_to_order\<close> with the price override 0 does exactly what the call
  without an override does. Whenever \<open>add_item_to_order\<close> succeeds, the line it appends has
  the item's selling price as its unit price if the override is absent or 0, and the
  override otherwise.
\<close>

theorem zero_price_override_ignored:
  "add_item_to_order now new_id oid pid qty (Some 0) discount s
     = add_item_to_order now new_id oid pid qty None discount s
   \<and> (fst (add_item_to_order now new_id oid pid qty price discount s) = Inr saved \<longrightarrow>
        (\<exists>order inv.
           get_order oid s = Some order \<and> get_inventory_item pid s = Some inv
           \<and> items saved = items order
               @ [\<lparr>oi_id = new_id, product_id = inv_id inv, product_name = inv_name inv,
                   oi_sku = inv_sku inv, quantity = qty,
                   unit_price = (case price of None \<Rightarrow> selling_price inv
                                 | Some p \<Rightarrow> if p = 0 then selling_price inv else p),
                   discount_percent = discount, tax_percent = 0\<rparr>]
           \<and> get_order oid (snd (add_item_to_order now new_id oid pid qty price discount s))
               = Some saved))"
proof -
  have same: "add_item_to_order now new_id oid pid qty (Some 0) discount s
                = add_item_to_order now new_id oid pid qty None discount s"
    unfolding add_item_to_order_def price_or_zero ..
  have appended: "\<exists>order inv.
           get_order oid s = Some order \<and> get_inventory_item pid s = Some inv
           \<and> items saved = items order
               @ [\<lparr>oi_id = new_id, product_id = inv_id inv, product_name = inv_name inv,
                   oi_sku = inv_sku inv, quantity = qty,
                   unit_price = (case price of None \<Rightarrow> selling_price inv
                                 | Some p \<Rightarrow> if p = 0 then selling_price inv else p),
                   discount_percent = discount, tax_percent = 0\<rparr>]
           \<and> get_order oid (snd (add_item_to_order now new_id oid pid qty price discount s))
               = Some saved"
    if ok: "fst (add_item_to_order now new_id oid pid qty price discount s) = Inr saved"
  proof -
    from ok obtain order where o: "get_order oid s = Some order"
      by (auto simp add: add_item_to_order_def split: option.splits)
    from ok o obtain inv where i: "get_inventory_item pid s = Some inv"
      by (auto simp add: add_item_to_order_def split: option.splits)
    define line where "line = \<lparr>oi_id = new_id, product_id = inv_id inv,
        product_name = inv_name inv, oi_sku = inv_sku inv, quantity = qty,
        unit_price = price_or price (selling_price inv), discount_percent = discount,
        tax_percent = 0\<rparr>"
    define order' where "order' = order\<lparr>items := items order @ [line], updated_at := now\<rparr>"
    define inv' where "inv' = inv\<lparr>quantity_reserved := quantity_reserved inv + qty,
        inv_updated_at := now\<rparr>"
    have run: "add_item_to_order now new_id oid pid qty price discount s
                 = (Inr order', snd (update_order order' (snd (update_inventory inv' s))))"
      using ok o i
      by (auto simp add: add_item_to_order_def new_OrderItem_def add_item_def
          reserve_stock_def line_def order'_def inv'_def update_order_def Let_def
          split: if_splits)
    with ok have saved: "saved = order'" by simp
    have "order_id order' = oid" using get_order_key [OF o] by (simp add: order'_def)
    then have "get_order oid (snd (add_item_to_order now new_id oid pid qty price discount s))
                 = Some saved"
      by (simp add: run saved get_order_update_order)
    moreover have "items saved = items order @ [line]"
      by (simp add: saved order'_def)
    ultimately show ?thesis
      using o i by (simp add: line_def price_or_def)
  qed
  from same appended show ?thesis by blast
qed

theorem zero_price_override_ignored_witness:
  "fst (add_item_to_order (clock 10) ''line-9'' ''order-1'' ''item-1'' 2 (Some 0) 0
          (test_db (test_order DRAFT []) ((test_product 100)\<lparr>selling_price := 1999 / 100\<rparr>)))
     = Inr ((test_order DRAFT [])
              \<lparr>items := [\<lparr>oi_id = ''line-9'', product_id = ''item-1'',
                           product_name = ''Test Product'', oi_sku = ''SKU-001'', quantity = 2,
                           unit_price = 1999 / 100, discount_percent = 0, tax_percent = 0\<rparr>],
               updated_at := clock 10\<rparr>)
   \<and> fst (add_item_to_order (clock 10) ''line-9'' ''order-1'' ''item-1'' 2 (Some 5) 0
          (test_db (test_order DRAFT []) ((test_product 100)\<lparr>selling_price := 1999 / 100\<rparr>)))
     = Inr ((test_order DRAFT [])
              \<lparr>items := [\<lparr>oi_id = ''line-9'', product_id = ''item-1'',
                           product_name = ''Test Product'', oi_sku = ''SKU-001'', quantity = 2,
                           unit_price = 5, discount_percent = 0, tax_percent = 0\<rparr>],
               updated_at := clock 10\<rparr>)"
  using zero_price_override_ignored [where now = "clock 10" and new_id = "''line-9''"
      and oid = "''order-1''" and pid = "''item-1''" and qty = 2 and discount = 0
      and price = "Some 0"
      and s = "test_db (test_order DRAFT []) ((test_product 100)\<lparr>selling_price := 1999 / 100\<rparr>)"
      and saved = "(test_order DRAFT [])
              \<lparr>items := [\<lparr>oi_id = ''line-9'', product_id = ''item-1'',
                           product_name = ''Test Product'', oi_sku = ''SKU-001'', quantity = 2,
                           unit_price = 1999 / 100, discount_percent = 0, tax_percent = 0\<rparr>],
               updated_at := clock 10\<rparr>"]
  by (simp add: add_item_to_order_def test_db_def get_order_def get_inventory_item_def
      test_order_def test_product_def quantity_available_def new_OrderItem_def price_or_def
      add_item_def can_modify_def reserve_stock_def update_inventory_def update_order_def)

subsection \<open>Lines whose inventory item is missing\<close>



end
